theory Spec2Isabelle
  imports Main
begin

section \<open>The SBI server of the UDR (internal/sbi/server.go)\<close>

text \<open>
  The file under verification builds the HTTP(S) endpoint of the data repository: the
  constructor \<open>NewServer\<close>, the router with its authorization pre-handler, the
  background accept loop started by \<open>Run\<close>, the choice between plain and TLS serving,
  and the bounded shutdown. Everything the file does beyond computing values is made
  explicit: a run of a function takes the world (the ordered trace of its effects and a
  clock) and the server object, and gives back both together with the way the call
  ended, a return or a panic.
\<close>

subsection \<open>Errors, panics, effects\<close>

text \<open>
  A Go error value. \<open>http.ErrServerClosed\<close> is one fixed value that the source compares
  by identity; every other error is \<open>Err\<close> with its message, so an error that merely
  prints like \<open>ErrServerClosed\<close> is still a different value. A nil error is \<open>None\<close> of
  \<open>error option\<close>.
\<close>

datatype error = ErrServerClosed | Err string

text \<open>
  What a panic carries: the string of \<open>panic("...")\<close>, the entry of
  \<open>logger.SBILog.Panicf(format, err)\<close>, or the runtime's nil-pointer dereference.
\<close>

datatype panic_value =
    PanicMsg string
  | PanicLogf string "error option"
  | NilPointerDereference

datatype 'a outcome = is_Returned: Returned 'a | Panicked panic_value

text \<open>
  The effects of the file, in the order they happen: the three calls on the SBI logger
  (format string and argument kept apart, as the source passes them), the two calls on
  the caller's wait group, the \<open>go\<close> statement of \<open>Run\<close>, the two calls that start the
  accept loop on the transport handle, and the call that shuts the handle down, with
  the deadline of its context.
\<close>

datatype event =
    SBILog_Info string
  | SBILog_Errorf string error
  | SBILog_Panicf string "error option"
  | WaitGroup_Add int
  | WaitGroup_Done
  | Go_func
  | Call_ListenAndServe
  | Call_ListenAndServeTLS string string
  | Call_Shutdown nat

record world =
  trace :: "event list"
  clock :: nat

definition emit :: "event list \<Rightarrow> world \<Rightarrow> world" where
  "emit es w = w\<lparr>trace := trace w @ es\<rparr>"



subsection \<open>Configuration and the Udr interface\<close>

text \<open>
  Modelled from the spec: the configuration types of package \<open>factory\<close> are not in the
  file. The spec's ServerConfig is "bind host, bind port, scheme, TLS cert path
  (optional), TLS key path (optional)"; the field names are the ones the source reads
  (\<open>Configuration.Sbi.Scheme\<close>, \<open>BindingIPv4\<close>, \<open>Port\<close>, \<open>Tls.Pem\<close>, \<open>Tls.Key\<close>). An
  unset path is the empty string, which is what the source tests for.
\<close>

record tls =
  Pem :: string
  Key :: string

record sbi =
  Scheme :: string
  BindingIPv4 :: string
  Port :: int
  Tls :: tls

record configuration =
  Sbi :: sbi

record config =
  Configuration :: configuration

text \<open>
  The interface \<open>Udr\<close> has the two methods \<open>Config()\<close> and \<open>Context()\<close>; a value of it is
  what the two return. The runtime context is opaque to this file (\<open>'c\<close>). The value handed
  to \<open>NewServer\<close> is taken to be a real one: the file never tests it for nil.
\<close>

record 'c udr =
  Config :: config
  Context :: 'c

subsection \<open>The router\<close>

text \<open>
  Modelled from the spec: the router library (gin) is outside the repository. A
  RouteGroup is "path prefix, ordered sequence of pre-handlers, ordered sequence of
  (method, path-suffix, handler) entries". A handler of the processor is known by its
  name only (\<open>APIFunc\<close>); the one pre-handler the source installs is the closure around
  \<open>util.NewRouterAuthorizationCheck(serviceName).Check(c, s.Context())\<close>. The router is
  a mutable object, and the order of the calls on it matters: a route is registered
  with the chain it will run, which is the pre-handlers its group has at that moment
  followed by the route's handler, so a pre-handler installed later does not guard a
  route registered earlier.
\<close>

datatype handler = RouterAuthorizationCheck string | APIFunc string

record route =
  Method :: string
  Pattern :: string
  HandlerFunc :: string

record route_group =
  basePath :: string
  Handlers :: "handler list"

record registered =
  reg_method :: string
  reg_path :: string
  chain :: "handler list"

record gin_engine =
  groups :: "route_group list"
  trees :: "registered list"

text \<open>
  \<open>router.Group(prefix)\<close> makes a new group of the router, with no pre-handler yet, and
  returns a pointer to it: here the group's index in the router. \<open>group.Use(h)\<close>
  appends a pre-handler to the group. \<open>AddService(group, routes)\<close> (package sbi, not in
  the file; the spec: "registers the full set of (method, path, handler) entries for
  that capability onto the group") registers the routes in order, each under the
  group's prefix and behind the group's pre-handlers of that moment.
\<close>

definition Group :: "string \<Rightarrow> gin_engine \<Rightarrow> gin_engine \<times> nat" where
  "Group p e =
     (e\<lparr>groups := groups e @ [\<lparr>basePath = p, Handlers = []\<rparr>]\<rparr>, length (groups e))"

definition Use :: "nat \<Rightarrow> handler \<Rightarrow> gin_engine \<Rightarrow> gin_engine" where
  "Use g h e =
     e\<lparr>groups := (groups e)[g := (groups e ! g)\<lparr>Handlers := Handlers (groups e ! g) @ [h]\<rparr>]\<rparr>"

definition register :: "route_group \<Rightarrow> route \<Rightarrow> registered" where
  "register grp rt =
     \<lparr>reg_method = Method rt,
      reg_path = basePath grp @ Pattern rt,
      chain = Handlers grp @ [APIFunc (HandlerFunc rt)]\<rparr>"

definition AddService :: "nat \<Rightarrow> route list \<Rightarrow> gin_engine \<Rightarrow> gin_engine" where
  "AddService g routes e = e\<lparr>trees := trees e @ map (register (groups e ! g)) routes\<rparr>"

subsection \<open>The transport handle\<close>

text \<open>
  \<open>http.Server\<close> is outside the repository; the file holds a pointer to one and calls
  three of its methods. What the handle does is not decided by the file, so each of the
  three methods is a parameter of the model (below). The handle's own state is kept as
  the phase the spec names for the ServerHandle, \<open>Unstarted\<close>, \<open>Serving\<close>,
  \<open>ShuttingDown\<close>, \<open>Closed\<close>; only the handle's methods change it.
\<close>

datatype lifecycle = Unstarted | Serving | ShuttingDown | Closed

record http_server =
  Addr :: string
  phase :: lifecycle


subsection \<open>The server object and its collaborators\<close>

record ('c, 'p) server =
  Udr :: "'c udr"
  httpServer :: "http_server option"
  router :: "gin_engine option"
  processor :: "'p option"

record request =
  req_method :: string
  req_path :: string
  authorization :: string

datatype decision = allow | deny string

text \<open>
  What the file uses and does not define is a parameter of the model: the three
  constants of package \<open>factory\<close>, the service name of package \<open>models\<close>, the
  constructors \<open>processor.NewProcessor\<close>, \<open>logger_util.NewGinWithLogrus(logger.GinLog)\<close>
  and \<open>httpwrapper.NewHttp2Server\<close> (each may return a nil pointer, and the last one an
  error beside it), the error that an accept loop ends with, the handle's
  \<open>Shutdown(ctx)\<close> (from the deadline of the context and the handle: the handle
  afterwards, the error it returns, and the time the caller was blocked), the route
  table of \<open>getDataRepositoryRoutes\<close>, the router's path matcher (whether a request
  matches a registered method and path pattern), and the policy behind the
  authorization check.
\<close>

record ('c, 'p) env =
  UdrDefaultCertPemPath :: string
  UdrDefaultPrivateKeyPath :: string
  UdrDrResUriPrefix :: string
  ServiceName_NUDR_DR :: string
  NewProcessor :: "'c udr \<Rightarrow> 'p option"
  NewGinWithLogrus :: "gin_engine option"
  NewHttp2Server :: "string \<Rightarrow> string \<Rightarrow> gin_engine \<Rightarrow> http_server option \<times> error option"
  ListenAndServe :: "http_server \<Rightarrow> error option"
  ListenAndServeTLS :: "http_server \<Rightarrow> string \<Rightarrow> string \<Rightarrow> error option"
  http_Server_Shutdown :: "nat \<Rightarrow> http_server \<Rightarrow> http_server \<times> error option \<times> nat"
  getDataRepositoryRoutes :: "('c, 'p) server \<Rightarrow> route list"
  route_match :: "string \<Rightarrow> string \<Rightarrow> request \<Rightarrow> bool"
  AuthorizationCheck :: "string \<Rightarrow> 'c \<Rightarrow> request \<Rightarrow> decision"

subsection \<open>Formatting the bind address\<close>

text \<open>\<open>fmt.Sprintf("%s:%d", host, port)\<close>: the host, a colon, the port in decimal.\<close>

definition digit :: "nat \<Rightarrow> char" where
  "digit d = ''0123456789'' ! d"

function sprint_nat :: "nat \<Rightarrow> string" where
  "sprint_nat n = (if n < 10 then [digit n] else sprint_nat (n div 10) @ [digit (n mod 10)])"
  by pat_completeness auto
termination
  by (relation "measure (\<lambda>n. n)") auto

declare sprint_nat.simps [simp del]

definition sprint_d :: "int \<Rightarrow> string" where
  "sprint_d i = (if i < 0 then CHR ''-'' # sprint_nat (nat (- i)) else sprint_nat (nat i))"

subsection \<open>The functions of server.go\<close>

definition bindRouter ::
  "('c, 'p) env \<Rightarrow> 'c udr \<Rightarrow> gin_engine \<Rightarrow> string \<Rightarrow> http_server option \<times> error option" where
  "bindRouter E u r tlsKeyLogPath =
     (let sbiConfig = Sbi (Configuration (Config u));
          bindAddr = BindingIPv4 sbiConfig @ '':'' @ sprint_d (Port sbiConfig)
      in NewHttp2Server E bindAddr tlsKeyLogPath r)"

definition newRouter :: "('c, 'p) env \<Rightarrow> ('c, 'p) server \<Rightarrow> gin_engine outcome" where
  "newRouter E s =
     (case NewGinWithLogrus E of
        None \<Rightarrow> Panicked NilPointerDereference
      | Some r0 \<Rightarrow>
          (let (r1, dataRepositoryGroup) = Group (UdrDrResUriPrefix E) r0;
               r2 = Use dataRepositoryGroup (RouterAuthorizationCheck (ServiceName_NUDR_DR E)) r1;
               dataRepositoryRoutes = getDataRepositoryRoutes E s
           in Returned (AddService dataRepositoryGroup dataRepositoryRoutes r2)))"

definition NewServer ::
  "('c, 'p) env \<Rightarrow> 'c udr \<Rightarrow> string \<Rightarrow> world \<Rightarrow> ('c, 'p) server outcome \<times> world" where
  "NewServer E u tlsKeyLogPath w =
     (let s = \<lparr>Udr = u, httpServer = None, router = None, processor = NewProcessor E u\<rparr>
      in case newRouter E s of
           Panicked p \<Rightarrow> (Panicked p, w)
         | Returned r \<Rightarrow>
             (let s1 = s\<lparr>router := Some r\<rparr>;
                  (srv, err) = bindRouter E u r tlsKeyLogPath;
                  s2 = s1\<lparr>httpServer := srv\<rparr>
              in case err of
                   Some e \<Rightarrow>
                     (Panicked (PanicMsg ''Server initialization failed''),
                      emit [SBILog_Errorf ''bind Router Error: %+v'' e] w)
                 | None \<Rightarrow> (Returned s2, w)))"


definition unsecureServe ::
  "('c, 'p) env \<Rightarrow> ('c, 'p) server \<Rightarrow> world \<Rightarrow> error option outcome \<times> ('c, 'p) server \<times> world" where
  "unsecureServe E s w =
     (case httpServer s of
        None \<Rightarrow> (Panicked NilPointerDereference, s, w)
      | Some h \<Rightarrow> (Returned (ListenAndServe E h), s, emit [Call_ListenAndServe] w))"

definition secureServe ::
  "('c, 'p) env \<Rightarrow> ('c, 'p) server \<Rightarrow> world \<Rightarrow> error option outcome \<times> ('c, 'p) server \<times> world" where
  "secureServe E s w =
     (let sbiConfig = Sbi (Configuration (Config (Udr s)));
          pemPath = Pem (Tls sbiConfig);
          pemPath = (if pemPath = [] then UdrDefaultCertPemPath E else pemPath);
          keyPath = Key (Tls sbiConfig);
          keyPath = (if keyPath = [] then UdrDefaultPrivateKeyPath E else keyPath)
      in case httpServer s of
           None \<Rightarrow> (Panicked NilPointerDereference, s, w)
         | Some h \<Rightarrow>
             (Returned (ListenAndServeTLS E h pemPath keyPath), s,
              emit [Call_ListenAndServeTLS pemPath keyPath] w))"

definition serve ::
  "('c, 'p) env \<Rightarrow> ('c, 'p) server \<Rightarrow> world \<Rightarrow> error option outcome \<times> ('c, 'p) server \<times> world" where
  "serve E s w =
     (let sbiConfig = Sbi (Configuration (Config (Udr s)))
      in if Scheme sbiConfig = ''http'' then unsecureServe E s w
         else if Scheme sbiConfig = ''https'' then secureServe E s w
         else (Returned (Some (Err (''invalid SBI scheme: '' @ Scheme sbiConfig))), s, w))"


definition Run_func ::
  "('c, 'p) env \<Rightarrow> ('c, 'p) server \<Rightarrow> world \<Rightarrow> unit outcome \<times> ('c, 'p) server \<times> world" where
  "Run_func E s w =
     (case serve E s w of
        (Panicked p, s', w') \<Rightarrow> (Panicked p, s', emit [WaitGroup_Done] w')
      | (Returned err, s', w') \<Rightarrow>
          (if err \<noteq> Some ErrServerClosed
           then (Panicked (PanicLogf ''HTTP server setup failed: %+v'' err), s',
                 emit [SBILog_Panicf ''HTTP server setup failed: %+v'' err, WaitGroup_Done] w')
           else (Returned (), s', emit [WaitGroup_Done] w')))"





subsection \<open>Serving a request\<close>

text \<open>
  Modelled from the spec: the dispatch of the router library and
  \<open>RouterAuthorizationCheck.Check\<close> of package \<open>util\<close> are not in the file. The spec:
  "match path+method against registered entries (first exact match wins; [...] that is
  delegated to whatever path-matching is used), run group pre-handlers in registration
  order, on any pre-handler rejecting, stop and return its failure response without
  invoking the handler, on all pre-handlers succeeding, invoke the handler"; and the
  gate "returns allow or deny", a deny giving a response that "reflects the denial
  (e.g., status indicating unauthorized)". The first registered route that the path
  matcher accepts is taken and its chain is run in order. The result is the response
  and the list of domain handlers that were invoked.
\<close>

datatype response = NoResponse | NotFound | Unauthorized string | Handled string

fun run_chain ::
  "('c, 'p) env \<Rightarrow> 'c \<Rightarrow> request \<Rightarrow> handler list \<Rightarrow> response \<times> string list \<Rightarrow> response \<times> string list" where
  "run_chain E c req [] acc = acc"
| "run_chain E c req (RouterAuthorizationCheck svc # hs) (resp, invoked) =
     (case AuthorizationCheck E svc c req of
        deny reason \<Rightarrow> (Unauthorized reason, invoked)
      | allow \<Rightarrow> run_chain E c req hs (resp, invoked))"
| "run_chain E c req (APIFunc f # hs) (resp, invoked) =
     run_chain E c req hs (Handled f, invoked @ [f])"

definition dispatch ::
  "('c, 'p) env \<Rightarrow> 'c \<Rightarrow> gin_engine \<Rightarrow> request \<Rightarrow> response \<times> string list" where
  "dispatch E c e req =
     (case find (\<lambda>x. route_match E (reg_method x) (reg_path x) req) (trees e) of
        None \<Rightarrow> (NotFound, [])
      | Some x \<Rightarrow> run_chain E c req (chain x) (NoResponse, []))"

subsection \<open>A concrete deployment\<close>

text \<open>
  One environment and one configuration on which the theorems below are run: a listener
  on 127.0.0.1:8000; a constructor of the handle that fails only when it cannot open
  the TLS key log; an accept loop that ends with \<open>ErrServerClosed\<close> on a plain listener
  and with a certificate error on a TLS listener; a handle that, asked to shut down
  while it is serving, has a request held open beyond the deadline (it stops accepting,
  reports the expired deadline after blocking for all of it, and keeps the connection),
  and that closes at once when it never served; two routes, one of them with a path
  parameter; a path matcher that compares segment by segment and lets a segment
  \<open>:name\<close> of the pattern match any non-empty segment; and a policy that admits the
  bearer \<open>token\<close>.
\<close>

fun split_path :: "string \<Rightarrow> string list" where
  "split_path [] = [[]]"
| "split_path (x # xs) =
     (if x = CHR ''/'' then [] # split_path xs
      else (case split_path xs of [] \<Rightarrow> [[x]] | y # ys \<Rightarrow> (x # y) # ys))"

fun segment_match :: "string \<Rightarrow> string \<Rightarrow> bool" where
  "segment_match (p # ps) seg = (if p = CHR '':'' then seg \<noteq> [] else p # ps = seg)"
| "segment_match [] seg = (seg = [])"

definition demo_match :: "string \<Rightarrow> string \<Rightarrow> request \<Rightarrow> bool" where
  "demo_match m p req =
     (req_method req = m \<and> list_all2 segment_match (split_path p) (split_path (req_path req)))"

definition demo_env :: "(nat, string) env" where
  "demo_env =
     \<lparr>UdrDefaultCertPemPath = ''cert/udr.pem'',
      UdrDefaultPrivateKeyPath = ''cert/udr.key'',
      UdrDrResUriPrefix = ''/nudr-dr/v2'',
      ServiceName_NUDR_DR = ''nudr-dr'',
      NewProcessor = (\<lambda>u. Some ''processor''),
      NewGinWithLogrus = Some \<lparr>groups = [], trees = []\<rparr>,
      NewHttp2Server = (\<lambda>a k r. if k = ''/nodir/keylog''
                                 then (None, Some (Err ''create pre-master-secret log fail''))
                                 else (Some \<lparr>Addr = a, phase = Unstarted\<rparr>, None)),
      ListenAndServe = (\<lambda>h. Some ErrServerClosed),
      ListenAndServeTLS = (\<lambda>h p k. Some (Err ''open cert: no such file'')),
      http_Server_Shutdown = (\<lambda>d h. if phase h = Serving \<or> phase h = ShuttingDown
                                      then (h\<lparr>phase := ShuttingDown\<rparr>, Some (Err ''context deadline exceeded''), d)
                                      else (h\<lparr>phase := Closed\<rparr>, None, 0)),
      getDataRepositoryRoutes = (\<lambda>s. [\<lparr>Method = ''GET'', Pattern = ''/data'', HandlerFunc = ''QueryData''\<rparr>,
                                       \<lparr>Method = ''GET'', Pattern = ''/ue/:ueId'', HandlerFunc = ''QueryUe''\<rparr>]),
      route_match = demo_match,
      AuthorizationCheck = (\<lambda>svc c r. if authorization r = ''token'' then allow else deny ''unauthorized'')\<rparr>"

definition demo_udr :: "string \<Rightarrow> string \<Rightarrow> string \<Rightarrow> nat udr" where
  "demo_udr scheme pem key =
     \<lparr>Config = \<lparr>Configuration = \<lparr>Sbi =
        \<lparr>Scheme = scheme, BindingIPv4 = ''127.0.0.1'', Port = 8000,
         Tls = \<lparr>Pem = pem, Key = key\<rparr>\<rparr>\<rparr>\<rparr>,
      Context = 7\<rparr>"

text \<open>The router that \<open>newRouter\<close> builds in this environment.\<close>

definition demo_router :: gin_engine where
  "demo_router =
     \<lparr>groups = [\<lparr>basePath = ''/nudr-dr/v2'', Handlers = [RouterAuthorizationCheck ''nudr-dr'']\<rparr>],
      trees = [\<lparr>reg_method = ''GET'', reg_path = ''/nudr-dr/v2/data'',
                chain = [RouterAuthorizationCheck ''nudr-dr'', APIFunc ''QueryData'']\<rparr>,
               \<lparr>reg_method = ''GET'', reg_path = ''/nudr-dr/v2/ue/:ueId'',
                chain = [RouterAuthorizationCheck ''nudr-dr'', APIFunc ''QueryUe'']\<rparr>]\<rparr>"

definition demo_server :: "string \<Rightarrow> string \<Rightarrow> string \<Rightarrow> lifecycle \<Rightarrow> (nat, string) server" where
  "demo_server scheme pem key ph =
     \<lparr>Udr = demo_udr scheme pem key,
      httpServer = Some \<lparr>Addr = ''127.0.0.1:8000'', phase = ph\<rparr>,
      router = Some demo_router,
      processor = Some ''processor''\<rparr>"

definition w0 :: world where
  "w0 = \<lparr>trace = [], clock = 0\<rparr>"



section \<open>Properties\<close>

subsection \<open>Helper facts\<close>


lemma unsecureServe_frame: "fst (snd (unsecureServe E s w)) = s"
  by (simp add: unsecureServe_def split: option.split)

lemma secureServe_frame: "fst (snd (secureServe E s w)) = s"
  by (simp add: secureServe_def Let_def split: option.split)

lemma serve_frame: "fst (snd (serve E s w)) = s"
  by (simp add: serve_def Let_def unsecureServe_frame secureServe_frame)

lemma sprint_nat_8000: "sprint_nat 8000 = ''8000''"
  by (simp add: sprint_nat.simps [of 8000] sprint_nat.simps [of 800] sprint_nat.simps [of 80]
      sprint_nat.simps [of 8] sprint_nat.simps [of 0] digit_def)

lemma demo_bindAddr:
  "BindingIPv4 (Sbi (Configuration (Config (demo_udr sc p k)))) @ '':'' @
     sprint_d (Port (Sbi (Configuration (Config (demo_udr sc p k))))) = ''127.0.0.1:8000''"
  by (simp add: demo_udr_def sprint_d_def sprint_nat_8000)

lemma Run_func_frame: "fst (snd (Run_func E s w)) = s"
proof -
  obtain r s' w' where a: "serve E s w = (r, s', w')"
    by (cases "serve E s w") auto
  with serve_frame [of E s w] have "s' = s" by simp
  with a show ?thesis by (cases r) (simp_all add: Run_func_def)
qed



lemma demo_serve_http:
  "serve demo_env (demo_server ''http'' [] [] Serving) w0 =
     (Returned (Some ErrServerClosed), demo_server ''http'' [] [] Serving,
      \<lparr>trace = [Call_ListenAndServe], clock = 0\<rparr>)"
  by (simp add: serve_def unsecureServe_def demo_server_def demo_udr_def demo_env_def w0_def emit_def)

lemma demo_serve_https:
  "serve demo_env (demo_server ''https'' [] [] Serving) w0 =
     (Returned (Some (Err ''open cert: no such file'')), demo_server ''https'' [] [] Serving,
      \<lparr>trace = [Call_ListenAndServeTLS ''cert/udr.pem'' ''cert/udr.key''], clock = 0\<rparr>)"
  by (simp add: serve_def secureServe_def demo_server_def demo_udr_def demo_env_def w0_def emit_def)

lemma demo_ftp_scheme:
  "Scheme (Sbi (Configuration (Config (Udr (demo_server ''ftp'' p k ph))))) = ''ftp''"
  by (simp add: demo_server_def demo_udr_def)

lemma demo_https_scheme:
  "Scheme (Sbi (Configuration (Config (Udr (demo_server ''https'' p k ph))))) = ''https''"
  by (simp add: demo_server_def demo_udr_def)

lemma demo_handle:
  "httpServer (demo_server sc p k ph) = Some \<lparr>Addr = ''127.0.0.1:8000'', phase = ph\<rparr>"
  by (simp add: demo_server_def)

lemma demo_newRouter: "newRouter demo_env s = Returned demo_router"
  by (simp add: newRouter_def demo_env_def Group_def Use_def AddService_def register_def
      demo_router_def)













lemma newRouter_trees:
  assumes "NewGinWithLogrus E = Some r0" and "trees r0 = []" and "newRouter E s = Returned e"
  shows "trees e =
           map (\<lambda>rt. \<lparr>reg_method = Method rt,
                      reg_path = UdrDrResUriPrefix E @ Pattern rt,
                      chain = [RouterAuthorizationCheck (ServiceName_NUDR_DR E), APIFunc (HandlerFunc rt)]\<rparr>)
               (getDataRepositoryRoutes E s)"
  using assms by (auto simp add: newRouter_def Group_def Use_def AddService_def register_def)

text \<open>
  The order of the two calls on the router matters: had the routes been registered
  before the pre-handler was installed, they would run without it.
\<close>

lemma late_Use_does_not_guard:
  "trees (Use (snd (Group p r0)) h (AddService (snd (Group p r0)) routes (fst (Group p r0)))) =
     trees r0 @ map (\<lambda>rt. \<lparr>reg_method = Method rt, reg_path = p @ Pattern rt,
                           chain = [APIFunc (HandlerFunc rt)]\<rparr>) routes"
  by (simp add: Group_def Use_def AddService_def register_def)

subsection \<open>TLS file paths\<close>

text \<open>
  C2. For scheme "https" (and a server that holds its transport handle), the accept loop
  is started by ListenAndServeTLS on the resolved certificate and key paths: an empty
  configured certificate path resolves to UdrDefaultCertPemPath and an empty configured
  key path to UdrDefaultPrivateKeyPath; a non-empty configured path is passed on exactly
  as it was supplied, each path independently of the other.
\<close>

theorem serve_https_resolved_paths:
  assumes "Scheme (Sbi (Configuration (Config (Udr s)))) = ''https''"
    and "httpServer s = Some h"
  shows "serve E s w =
           (Returned (ListenAndServeTLS E h
              (if Pem (Tls (Sbi (Configuration (Config (Udr s))))) = [] then UdrDefaultCertPemPath E
               else Pem (Tls (Sbi (Configuration (Config (Udr s))))))
              (if Key (Tls (Sbi (Configuration (Config (Udr s))))) = [] then UdrDefaultPrivateKeyPath E
               else Key (Tls (Sbi (Configuration (Config (Udr s))))))),
            s,
            emit [Call_ListenAndServeTLS
              (if Pem (Tls (Sbi (Configuration (Config (Udr s))))) = [] then UdrDefaultCertPemPath E
               else Pem (Tls (Sbi (Configuration (Config (Udr s))))))
              (if Key (Tls (Sbi (Configuration (Config (Udr s))))) = [] then UdrDefaultPrivateKeyPath E
               else Key (Tls (Sbi (Configuration (Config (Udr s))))))] w)"
  using assms by (simp add: serve_def secureServe_def Let_def)

theorem serve_https_resolved_paths_witness:
  "snd (snd (serve demo_env (demo_server ''https'' [] ''my/udr.key'' Unstarted) w0)) =
      \<lparr>trace = [Call_ListenAndServeTLS ''cert/udr.pem'' ''my/udr.key''], clock = 0\<rparr>"
  using serve_https_resolved_paths
      [OF demo_https_scheme [of "[]" "''my/udr.key''" Unstarted]
          demo_handle [of "''https''" "[]" "''my/udr.key''" Unstarted],
       of demo_env w0]
  by (simp add: demo_server_def demo_udr_def demo_env_def w0_def emit_def)

subsection \<open>The configuration is read only\<close>

text \<open>
  C9. Resolving an empty certificate or key path to its default happens in local
  variables of secureServe: the configuration stored behind the server is the same after
  the call as before it, so its Tls.Pem and Tls.Key are never written, and the same
  holds for every function that serves (unsecureServe, serve and the body of the
  goroutine that Run starts).
\<close>

theorem serving_leaves_config:
  "Config (Udr (fst (snd (secureServe E s w)))) = Config (Udr s) \<and>
   Config (Udr (fst (snd (unsecureServe E s w)))) = Config (Udr s) \<and>
   Config (Udr (fst (snd (serve E s w)))) = Config (Udr s) \<and>
   Config (Udr (fst (snd (Run_func E s w)))) = Config (Udr s)"
  by (simp add: secureServe_frame unsecureServe_frame serve_frame Run_func_frame)

subsection \<open>The end of the accept loop\<close>

text \<open>
  C3. Whatever serve returns to the goroutine of Run, an error that is not
  http.ErrServerClosed (a nil error included) is escalated: it is logged by Panicf and
  the goroutine panics with it. When the error is http.ErrServerClosed, the graceful
  shutdown's signal, nothing is logged and the goroutine returns; in both cases the
  deferred wg.Done() runs last.
\<close>

theorem Run_func_escalation:
  assumes "serve E s w = (Returned err, s', w')"
  shows "(err \<noteq> Some ErrServerClosed \<longrightarrow>
            Run_func E s w =
              (Panicked (PanicLogf ''HTTP server setup failed: %+v'' err), s',
               emit [SBILog_Panicf ''HTTP server setup failed: %+v'' err, WaitGroup_Done] w')) \<and>
         (err = Some ErrServerClosed \<longrightarrow>
            Run_func E s w = (Returned (), s', emit [WaitGroup_Done] w'))"
  using assms by (simp add: Run_func_def)

theorem Run_func_escalation_witness:
  "Run_func demo_env (demo_server ''http'' [] [] Serving) w0 =
     (Returned (), demo_server ''http'' [] [] Serving,
      \<lparr>trace = [Call_ListenAndServe, WaitGroup_Done], clock = 0\<rparr>) \<and>
   Run_func demo_env (demo_server ''https'' [] [] Serving) w0 =
     (Panicked (PanicLogf ''HTTP server setup failed: %+v'' (Some (Err ''open cert: no such file''))),
      demo_server ''https'' [] [] Serving,
      \<lparr>trace = [Call_ListenAndServeTLS ''cert/udr.pem'' ''cert/udr.key'',
                SBILog_Panicf ''HTTP server setup failed: %+v'' (Some (Err ''open cert: no such file'')),
                WaitGroup_Done], clock = 0\<rparr>)"
  using Run_func_escalation [OF demo_serve_http] Run_func_escalation [OF demo_serve_https]
  by (simp add: emit_def)

subsection \<open>An unrecognised scheme\<close>

text \<open>
  C1 does not hold as stated: NewServer never looks at the scheme. With the scheme "ftp"
  and a transport that binds, the constructor returns a complete server and logs
  nothing.
\<close>

theorem NewServer_accepts_invalid_scheme:
  "Scheme (Sbi (Configuration (Config (demo_udr ''ftp'' [] [])))) = ''ftp'' \<and>
   NewServer demo_env (demo_udr ''ftp'' [] []) [] w0 =
     (Returned \<lparr>Udr = demo_udr ''ftp'' [] [],
                httpServer = Some \<lparr>Addr = ''127.0.0.1:8000'', phase = Unstarted\<rparr>,
                router = Some demo_router,
                processor = Some ''processor''\<rparr>, w0)"
  by (simp add: NewServer_def demo_newRouter bindRouter_def demo_bindAddr)
     (simp add: demo_env_def demo_udr_def sprint_d_def sprint_nat_8000)

text \<open>
  C1, amended. For every configuration whose scheme is neither "http" nor "https", it is
  serve, called by the goroutine that Run starts, that fails: it returns the error
  "invalid SBI scheme: <scheme>" without calling ListenAndServe or ListenAndServeTLS (the
  trace is unchanged, so no listening socket is opened), and the goroutine escalates
  that error by a panic instead of serving.
\<close>

theorem invalid_scheme_detected_by_serve:
  assumes "Scheme (Sbi (Configuration (Config (Udr s)))) \<noteq> ''http''"
    and "Scheme (Sbi (Configuration (Config (Udr s)))) \<noteq> ''https''"
  shows "serve E s w =
           (Returned (Some (Err (''invalid SBI scheme: '' @ Scheme (Sbi (Configuration (Config (Udr s))))))),
            s, w) \<and>
         Run_func E s w =
           (Panicked (PanicLogf ''HTTP server setup failed: %+v''
              (Some (Err (''invalid SBI scheme: '' @ Scheme (Sbi (Configuration (Config (Udr s)))))))),
            s,
            emit [SBILog_Panicf ''HTTP server setup failed: %+v''
                    (Some (Err (''invalid SBI scheme: '' @ Scheme (Sbi (Configuration (Config (Udr s))))))),
                  WaitGroup_Done] w)"
  using assms by (simp add: serve_def Run_func_def)

theorem invalid_scheme_detected_by_serve_witness:
  "serve demo_env (demo_server ''ftp'' [] [] Unstarted) w0 =
     (Returned (Some (Err ''invalid SBI scheme: ftp'')), demo_server ''ftp'' [] [] Unstarted, w0) \<and>
   Run_func demo_env (demo_server ''ftp'' [] [] Unstarted) w0 =
     (Panicked (PanicLogf ''HTTP server setup failed: %+v'' (Some (Err ''invalid SBI scheme: ftp''))),
      demo_server ''ftp'' [] [] Unstarted,
      \<lparr>trace = [SBILog_Panicf ''HTTP server setup failed: %+v'' (Some (Err ''invalid SBI scheme: ftp'')),
                WaitGroup_Done], clock = 0\<rparr>)"
  using invalid_scheme_detected_by_serve [of "demo_server ''ftp'' [] [] Unstarted" demo_env w0]
  by (simp add: demo_ftp_scheme emit_def w0_def)

subsection \<open>Construction\<close>




subsection \<open>Starting the accept loop\<close>



subsection \<open>Shutdown\<close>







subsection \<open>The pointers of the server object\<close>




subsection \<open>Authorization before the domain handlers\<close>

text \<open>
  C6. On a router that has no routes yet, newRouter installs the authorization check for
  the service NUDR_DR as the first pre-handler of the data-repository group before it
  registers any route, so every registered data-repository route runs the check first
  and its domain handler after it. Hence for every request that the router's path
  matcher matches to a registered data-repository route and that the authorization
  check denies, no domain handler is invoked (the list of invoked handlers is empty)
  and the response is the denial with its reason.
\<close>

theorem authorization_before_handlers:
  assumes "NewGinWithLogrus E = Some r0" and "trees r0 = []"
    and "newRouter E s = Returned e"
    and "rt \<in> set (getDataRepositoryRoutes E s)"
    and "route_match E (Method rt) (UdrDrResUriPrefix E @ Pattern rt) req"
    and "AuthorizationCheck E (ServiceName_NUDR_DR E) (Context (Udr s)) req = deny reason"
  shows "dispatch E (Context (Udr s)) e req = (Unauthorized reason, []) \<and>
         map chain (trees e) =
           map (\<lambda>rt. [RouterAuthorizationCheck (ServiceName_NUDR_DR E), APIFunc (HandlerFunc rt)])
             (getDataRepositoryRoutes E s) \<and>
         map (\<lambda>x. (reg_method x, reg_path x)) (trees e) =
           map (\<lambda>rt. (Method rt, UdrDrResUriPrefix E @ Pattern rt)) (getDataRepositoryRoutes E s)"
proof -
  let ?reg = "\<lambda>rt::route. \<lparr>reg_method = Method rt,
                    reg_path = UdrDrResUriPrefix E @ Pattern rt,
                    chain = [RouterAuthorizationCheck (ServiceName_NUDR_DR E), APIFunc (HandlerFunc rt)]\<rparr>"
  let ?P = "\<lambda>x. route_match E (reg_method x) (reg_path x) req"
  have t: "trees e = map ?reg (getDataRepositoryRoutes E s)"
    using newRouter_trees [OF assms(1,2,3)] .
  have "?reg rt \<in> set (trees e)" using t assms(4) by simp
  moreover have "?P (?reg rt)" using assms(5) by simp
  ultimately have "find ?P (trees e) \<noteq> None"
    by (auto simp add: find_None_iff)
  then obtain x where f: "find ?P (trees e) = Some x" by auto
  then have "x \<in> set (trees e)" by (auto simp add: find_Some_iff)
  with t obtain rt' where "x = ?reg rt'" by auto
  then have c: "chain x = [RouterAuthorizationCheck (ServiceName_NUDR_DR E), APIFunc (HandlerFunc rt')]"
    by simp
  have d: "dispatch E (Context (Udr s)) e req = (Unauthorized reason, [])"
    using f c assms(6) by (simp add: dispatch_def)
  show ?thesis using d t by (simp add: comp_def)
qed

theorem authorization_before_handlers_witness:
  "dispatch demo_env 7 demo_router
     \<lparr>req_method = ''GET'', req_path = ''/nudr-dr/v2/ue/imsi-1'', authorization = ''none''\<rparr>
     = (Unauthorized ''unauthorized'', [])"
proof -
  let ?req = "\<lparr>req_method = ''GET'', req_path = ''/nudr-dr/v2/ue/imsi-1'', authorization = ''none''\<rparr>"
  let ?rt = "\<lparr>Method = ''GET'', Pattern = ''/ue/:ueId'', HandlerFunc = ''QueryUe''\<rparr>"
  have a: "NewGinWithLogrus demo_env = Some \<lparr>groups = [], trees = []\<rparr>" by (simp add: demo_env_def)
  have b: "trees \<lparr>groups = [], trees = []\<rparr> = []" by simp
  have c: "?rt \<in> set (getDataRepositoryRoutes demo_env (demo_server ''http'' [] [] Serving))"
    by (simp add: demo_env_def)
  have d: "route_match demo_env (Method ?rt) (UdrDrResUriPrefix demo_env @ Pattern ?rt) ?req"
    by (simp add: demo_env_def demo_match_def)
  have f: "AuthorizationCheck demo_env (ServiceName_NUDR_DR demo_env)
             (Context (Udr (demo_server ''http'' [] [] Serving))) ?req = deny ''unauthorized''"
    by (simp add: demo_env_def)
  have g: "Context (Udr (demo_server ''http'' [] [] Serving)) = 7"
    by (simp add: demo_server_def demo_udr_def)
  from authorization_before_handlers [OF a b demo_newRouter c d f] g
  show ?thesis by simp
qed

end
